theory Spec2Isabelle
  imports Main "HOL-Library.Word"
begin

section \<open>JavaScript strings\<close>

text \<open>
  A JavaScript string is a sequence of UTF-16 code units, and \<open>length\<close>, \<open>split\<close>,
  \<open>includes\<close>, \<open>trim\<close> and \<open>encodeURIComponent\<close> all work on code units. A code unit
  is a 16-bit word; \<open>js\<close> turns an ASCII literal into such a string.
\<close>

type_synonym jschar = "16 word"
type_synonym jsstring = "jschar list"

definition js :: "string \<Rightarrow> jsstring" where
  "js s = map (\<lambda>c. of_nat (of_char c)) s"

text \<open>
  \<open>WhiteSpace\<close> and \<open>LineTerminator\<close> of ECMAScript: what \<open>trim\<close> strips and what the
  regular expression class \<open>\s\<close> matches.
\<close>

definition isWhiteSpace :: "jschar \<Rightarrow> bool" where
  "isWhiteSpace c \<longleftrightarrow>
     c = 0x09 \<or> c = 0x0A \<or> c = 0x0B \<or> c = 0x0C \<or> c = 0x0D \<or> c = 0x20 \<or> c = 0xA0 \<or>
     c = 0x1680 \<or> (0x2000 \<le> c \<and> c \<le> 0x200A) \<or> c = 0x2028 \<or> c = 0x2029 \<or>
     c = 0x202F \<or> c = 0x205F \<or> c = 0x3000 \<or> c = 0xFEFF"

definition trim :: "jsstring \<Rightarrow> jsstring" where
  "trim s = rev (dropWhile isWhiteSpace (rev (dropWhile isWhiteSpace s)))"

text \<open>
  \<open>toLowerCase\<close> and \<open>toUpperCase\<close> on the letters A to Z. The program lower-cases a
  line only to look for the words \<open>time\<close> and \<open>address\<close> in it; the only characters
  outside ASCII whose lower case holds an ASCII letter are U+212A (to \<open>k\<close>) and U+0130
  (to \<open>i\<close> followed by U+0307), and neither can take part in an occurrence of those two
  words, so both tests come out as in JavaScript on every string. The program upper-cases
  only a postcode match, which holds ASCII letters, digits and white space.
\<close>

definition toLowerCase :: "jsstring \<Rightarrow> jsstring" where
  "toLowerCase s = map (\<lambda>c. if 0x41 \<le> c \<and> c \<le> 0x5A then c + 0x20 else c) s"

definition toUpperCase :: "jsstring \<Rightarrow> jsstring" where
  "toUpperCase s = map (\<lambda>c. if 0x61 \<le> c \<and> c \<le> 0x7A then c - 0x20 else c) s"

definition startsWith :: "'a list \<Rightarrow> 'a list \<Rightarrow> bool" where
  "startsWith p s \<longleftrightarrow> take (length p) s = p"

text \<open>\<open>s.includes(p)\<close>: \<open>p\<close> occurs in \<open>s\<close> at some position.\<close>

fun js_includes :: "'a list \<Rightarrow> 'a list \<Rightarrow> bool" where
  "js_includes p [] = startsWith p []"
| "js_includes p (c # cs) = (startsWith p (c # cs) \<or> js_includes p cs)"

text \<open>
  \<open>s.split(sep)\<close> for a separator of one code unit, which is every use in the program
  (\<open>'\n'\<close>, \<open>'|'\<close>, \<open>':'\<close>). The accumulator \<open>cur\<close> holds the fragment being read,
  reversed. The empty string splits into one empty fragment.
\<close>

fun split_from :: "'a \<Rightarrow> 'a list \<Rightarrow> 'a list \<Rightarrow> 'a list list" where
  "split_from sep cur [] = [rev cur]"
| "split_from sep cur (c # cs) =
     (if c = sep then rev cur # split_from sep [] cs else split_from sep (c # cur) cs)"

definition split_on :: "'a \<Rightarrow> 'a list \<Rightarrow> 'a list list" where
  "split_on sep s = split_from sep [] s"

text \<open>\<open>xs.slice(1, -1)\<close>: drop the first and the last element; empty when there are at most two.\<close>

definition slice_1_m1 :: "'a list \<Rightarrow> 'a list" where
  "slice_1_m1 xs = take (length xs - 2) (drop 1 xs)"

text \<open>\<open>xs[i]\<close> reads \<open>undefined\<close> out of range: \<open>None\<close>.\<close>

definition at :: "'a list \<Rightarrow> nat \<Rightarrow> 'a option" where
  "at xs i = (if i < length xs then Some (xs ! i) else None)"

text \<open>\<open>v || d\<close> for a string or \<open>undefined\<close>: the empty string and \<open>undefined\<close> are falsy.\<close>

definition or_else :: "jsstring option \<Rightarrow> jsstring \<Rightarrow> jsstring" where
  "or_else v d = (case v of None \<Rightarrow> d | Some s \<Rightarrow> if s = [] then d else s)"

definition nl :: jschar where "nl = 0x0A"
definition bar :: jschar where "bar = 0x7C"
definition colon :: jschar where "colon = 0x3A"

section \<open>The table parser (App.tsx)\<close>

record job =
  time :: jsstring
  address :: jsstring
  productCode :: jsstring
  productType :: jsstring
  productBrand :: jsstring
  fault :: jsstring
  errorCode :: jsstring
  productionYear :: jsstring
  serialNumber :: jsstring

text \<open>\<open>line.split('|').slice(1, -1).map(c => c.trim())\<close>\<close>

definition cleanCols :: "jsstring \<Rightarrow> jsstring list" where
  "cleanCols line = map trim (slice_1_m1 (split_on bar line))"

text \<open>The object pushed for a row, from its cells.\<close>

definition job_of :: "jsstring list \<Rightarrow> job" where
  "job_of cols =
     \<lparr> time = or_else (at cols 0) (js ''TBD''),
       address = or_else (at cols 1) [],
       productCode = or_else (at cols 2) [],
       productType = or_else (at cols 3) [],
       productBrand = or_else (at cols 4) [],
       fault = or_else (at cols 5) [],
       errorCode = or_else (at cols 6) [],
       productionYear = or_else (at cols 7) [],
       serialNumber = or_else (at cols 8) [] \<rparr>"

text \<open>
  The loop over the lines, with the array \<open>jobs\<close> it pushes to. (The source also
  computes an array \<open>cols\<close> that it never reads.)
\<close>

fun parse_lines :: "jsstring list \<Rightarrow> job list \<Rightarrow> job list" where
  "parse_lines [] jobs = jobs"
| "parse_lines (line # rest) jobs =
     (if \<not> js_includes [bar] line \<or> js_includes (js ''---'') line \<or>
         (js_includes (js ''time'') (toLowerCase line) \<and> js_includes (js ''address'') (toLowerCase line))
      then parse_lines rest jobs
      else if 8 \<le> length (cleanCols line)
        then parse_lines rest (jobs @ [job_of (cleanCols line)])
        else parse_lines rest jobs)"

definition parseMarkdownTable :: "jsstring \<Rightarrow> job list" where
  "parseMarkdownTable markdown = parse_lines (split_on nl (trim markdown)) []"

section \<open>Time slots (TimeSlotManager.tsx)\<close>

record slot =
  start :: jsstring
  end_time :: jsstring

text \<open>
  An array that may have holes: \<open>None\<close> is a hole (it reads as \<open>undefined\<close>, and
  \<open>JSON.stringify\<close> writes it as \<open>null\<close>). \<open>xs[i] = v\<close> on a copy of the array: in
  range it replaces the element; past the end JavaScript extends the array to
  \<open>i + 1\<close> elements and leaves holes in between, as long as \<open>i\<close> is an array index,
  which is an integer from 0 to \<open>2^32 - 2\<close>. A larger integer is no array index: the
  assignment sets a property of that name on the array object, which is no part of the
  sequence, and neither \<open>JSON.stringify\<close> nor a later copy keeps it. (An array has at
  most \<open>2^32 - 1\<close> elements, so such an integer is never in range.)
\<close>

definition array_set :: "'a option list \<Rightarrow> nat \<Rightarrow> 'a \<Rightarrow> 'a option list" where
  "array_set xs i v =
     (if i < length xs then xs[i := Some v]
      else if i < 4294967295 then xs @ replicate (i - length xs) None @ [Some v]
      else xs)"

text \<open>
  \<open>String(n)\<close> for a non-negative integer \<open>n\<close>: its decimal digits (as JavaScript
  prints every integer below \<open>10^21\<close>; the program's are minutes and hours).
\<close>

fun String_nat :: "nat \<Rightarrow> jsstring" where
  "String_nat n =
     (if n < 10 then [of_nat (48 + n)] else String_nat (n div 10) @ [of_nat (48 + n mod 10)])"

definition padStart :: "nat \<Rightarrow> jschar \<Rightarrow> jsstring \<Rightarrow> jsstring" where
  "padStart n c s = replicate (n - length s) c @ s"

text \<open>
  The template \<open>`${String(h).padStart(2, '0')}:${String(m).padStart(2, '0')}`\<close>, which the
  source writes out at each place it renders a time.
\<close>

definition clock :: "nat \<Rightarrow> nat \<Rightarrow> jsstring" where
  "clock h m = padStart 2 0x30 (String_nat h) @ [colon] @ padStart 2 0x30 (String_nat m)"

text \<open>
  The loop \<open>for (let i = 1; i < jobCount; i++)\<close> of the effect, with its variables
  \<open>currentStartMinutes\<close> and \<open>initialSlots\<close>.
\<close>

function initialSlots_loop :: "nat \<Rightarrow> nat \<Rightarrow> nat \<Rightarrow> slot list \<Rightarrow> slot list" where
  "initialSlots_loop i jobCount currentStartMinutes initialSlots =
     (if i < jobCount then
        initialSlots_loop (i + 1) jobCount (currentStartMinutes + 120)
          (initialSlots @
            [\<lparr> start = clock (currentStartMinutes div 60) (currentStartMinutes mod 60),
               end_time = clock ((currentStartMinutes + 120) div 60)
                                ((currentStartMinutes + 120) mod 60) \<rparr>])
      else initialSlots)"
  by pat_completeness auto
termination
  by (relation "measure (\<lambda>(i, jobCount, _, _). jobCount - i)") auto

text \<open>
  The effect of \<open>TimeSlotManager\<close>: from \<open>jobCount\<close> and the \<open>timeSlots\<close> it is given, the
  \<open>timeSlots\<close> the parent holds afterwards (\<open>onTimeSlotsChange\<close> is the parent's setter).
\<close>

definition TimeSlotManager_effect :: "nat \<Rightarrow> slot option list \<Rightarrow> slot option list" where
  "TimeSlotManager_effect jobCount timeSlots =
     (if jobCount > 0 \<and> length timeSlots = 0
      then map Some (initialSlots_loop 1 jobCount (8 * 60)
                       [\<lparr> start = js ''07:30'', end_time = js ''08:30'' \<rparr>])
      else timeSlots)"

text \<open>
  \<open>Number(s)\<close> for a string of one to twelve decimal digits. For two such numbers
  \<open>h\<close> and \<open>m\<close>, every value the program computes from them is an integer below
  \<open>2^53\<close>, or the quotient of one by 60, so that its arithmetic on doubles is the exact
  one on the naturals. \<open>None\<close>: any other string, which this model does not cover
  (JavaScript goes on there with \<open>NaN\<close>, with a fraction or with a rounded value).
\<close>

definition isDigit :: "jschar \<Rightarrow> bool" where
  "isDigit c \<longleftrightarrow> 0x30 \<le> c \<and> c \<le> 0x39"

definition digitValue :: "jschar \<Rightarrow> nat" where
  "digitValue c = unat c - 48"

definition Number_digits :: "jsstring \<Rightarrow> nat option" where
  "Number_digits s =
     (if s \<noteq> [] \<and> length s \<le> 12 \<and> list_all isDigit s
      then Some (foldl (\<lambda>n c. 10 * n + digitValue c) 0 s) else None)"

text \<open>
  \<open>handleStartTimeChange(index, newStart)\<close>: the new \<open>timeSlots\<close>. \<open>None\<close> only where
  \<open>newStart\<close> does not begin with two numbers that \<open>Number_digits\<close> covers, with a
  colon after each but the last; there JavaScript computes the end from \<open>NaN\<close> or from a
  fraction, which is not modelled.
\<close>

definition handleStartTimeChange ::
  "slot option list \<Rightarrow> nat \<Rightarrow> jsstring \<Rightarrow> slot option list option" where
  "handleStartTimeChange timeSlots index newStart =
     (case map Number_digits (split_on colon newStart) of
        Some h # Some m # _ \<Rightarrow>
          (let startMins = h * 60 + m;
               endMins = startMins + 120;
               endH = endMins div 60;
               endM = endMins mod 60;
               newEnd = clock endH endM
           in Some (array_set timeSlots index \<lparr> start = newStart, end_time = newEnd \<rparr>))
      | _ \<Rightarrow> None)"

section \<open>Saving a worksheet and its messages (App.tsx)\<close>

text \<open>
  \<open>msg.replace(pattern, replacement)\<close> with a string pattern: the first occurrence is
  replaced, and \<open>$$\<close>, \<open>$&\<close>, \<open>$`\<close> and \<open>$'\<close> in the replacement stand for a dollar
  sign, the match, the text before it and the text after it. (A string pattern has no
  groups, so \<open>$1\<close> and \<open>$<\<close> stay as they are.)
\<close>

fun indexOf :: "'a list \<Rightarrow> 'a list \<Rightarrow> nat option" where
  "indexOf p [] = (if startsWith p [] then Some 0 else None)"
| "indexOf p (c # cs) =
     (if startsWith p (c # cs) then Some 0 else map_option Suc (indexOf p cs))"

fun substitution :: "jsstring \<Rightarrow> jsstring \<Rightarrow> jsstring \<Rightarrow> jsstring \<Rightarrow> jsstring" where
  "substitution matched preceding following (c # d # rest) =
     (if c = 0x24 \<and> d = 0x24 then 0x24 # substitution matched preceding following rest
      else if c = 0x24 \<and> d = 0x26 then matched @ substitution matched preceding following rest
      else if c = 0x24 \<and> d = 0x60 then preceding @ substitution matched preceding following rest
      else if c = 0x24 \<and> d = 0x27 then following @ substitution matched preceding following rest
      else c # substitution matched preceding following (d # rest))"
| "substitution matched preceding following rest = rest"

definition replace_first :: "jsstring \<Rightarrow> jsstring \<Rightarrow> jsstring \<Rightarrow> jsstring" where
  "replace_first pattern replacement s =
     (case indexOf pattern s of
        None \<Rightarrow> s
      | Some pos \<Rightarrow>
          take pos s @
          substitution pattern (take pos s) (drop (pos + length pattern) s) replacement @
          drop (pos + length pattern) s)"

text \<open>The callback of \<open>processedData.notifications.map\<close> in \<open>handleSaveWorksheet\<close>.\<close>

definition finalMessage :: "slot option list \<Rightarrow> jsstring \<Rightarrow> nat \<Rightarrow> jsstring" where
  "finalMessage timeSlots msg index =
     (let timeString =
            (case at timeSlots index of
               Some (Some slot) \<Rightarrow> start slot @ js '' - '' @ end_time slot
             | _ \<Rightarrow> js ''[TIME]'')
      in replace_first (js ''{{TIME_SLOT}}'') timeString msg)"

definition finalMessages :: "jsstring list \<Rightarrow> slot option list \<Rightarrow> jsstring list" where
  "finalMessages notifications timeSlots =
     map (\<lambda>(msg, index). finalMessage timeSlots msg index)
       (zip notifications [0 ..< length notifications])"

record worksheet =
  dateLabel :: jsstring
  date :: jsstring
  createdAt :: jsstring
  timeSlots :: "slot option list"
  jobs :: "job option list"
  comments :: "nat \<rightharpoonup> jsstring"

record saved_messages =
  messages_dateLabel :: jsstring
  messages_date :: jsstring
  messages_createdAt :: jsstring
  messages :: "jsstring list"

text \<open>
  \<open>localStorage\<close>: keys to values. A value is kept as the object that was written:
  \<open>JSON.stringify\<close> followed by \<open>JSON.parse\<close> gives back an object of strings, arrays
  and holes as it was, a hole as \<open>null\<close>, and both are \<open>None\<close> here. The store has no
  quota.
\<close>

datatype stored = Worksheet worksheet | Messages saved_messages

type_synonym storage = "jsstring \<rightharpoonup> stored"

record processedData =
  dataTable :: jsstring
  notifications :: "jsstring list"

text \<open>
  \<open>handleSaveWorksheet\<close>: the new \<open>localStorage\<close>. The clock is a parameter:
  \<open>now\<close> is \<open>Date.now().toString()\<close>, \<open>t1\<close> to \<open>t4\<close> are the four
  \<open>new Date().toISOString()\<close>, and \<open>label\<close> is the result of \<open>extractDateLabel\<close> on
  the table, which falls back on the clock too. (The handler also sets the stage of the
  page, which is left out.)
\<close>

definition handleSaveWorksheet ::
  "processedData option \<Rightarrow> slot option list \<Rightarrow> jsstring \<Rightarrow> jsstring \<Rightarrow>
   jsstring \<Rightarrow> jsstring \<Rightarrow> jsstring \<Rightarrow> jsstring \<Rightarrow> storage \<Rightarrow> storage" where
  "handleSaveWorksheet processed slots label now t1 t2 t3 t4 localStorage =
     (case processed of
        None \<Rightarrow> localStorage
      | Some pd \<Rightarrow>
          (let worksheetId = now;
               messagesId = worksheetId;
               parsed = parseMarkdownTable (dataTable pd);
               final = finalMessages (notifications pd) slots;
               worksheetPayload =
                 \<lparr> dateLabel = label, date = t1, createdAt = t2, timeSlots = slots,
                   jobs = map Some parsed, comments = Map.empty \<rparr>;
               messagesPayload =
                 \<lparr> messages_dateLabel = label, messages_date = t3,
                   messages_createdAt = t4, messages = final \<rparr>
           in (localStorage(js ''worksheet_'' @ worksheetId \<mapsto> Worksheet worksheetPayload))
                (js ''messages_'' @ messagesId \<mapsto> Messages messagesPayload)))"

section \<open>The worksheet view (WorksheetView.tsx)\<close>

text \<open>
  The state of the component: \<open>worksheet\<close> (\<open>null\<close> until loaded) and \<open>comments\<close>;
  \<open>localStorage\<close> is passed along.
\<close>

record view =
  worksheet :: "worksheet option"
  view_comments :: "nat \<rightharpoonup> jsstring"

text \<open>
  The effect that loads the worksheet. A value under the key that is not a worksheet
  is not modelled (no code writes one): the state stays as it is.
\<close>

definition load_worksheet :: "jsstring \<Rightarrow> storage \<Rightarrow> view \<Rightarrow> view" where
  "load_worksheet worksheetId localStorage v =
     (case localStorage (js ''worksheet_'' @ worksheetId) of
        Some (Worksheet data) \<Rightarrow> \<lparr> worksheet = Some data, view_comments = comments data \<rparr>
      | _ \<Rightarrow> v)"

definition handleCommentChange ::
  "jsstring \<Rightarrow> view \<Rightarrow> storage \<Rightarrow> nat \<Rightarrow> jsstring \<Rightarrow> view \<times> storage" where
  "handleCommentChange worksheetId v localStorage index comment =
     (let updated = (view_comments v)(index \<mapsto> comment)
      in (v\<lparr> view_comments := updated \<rparr>,
          (case worksheet v of
             None \<Rightarrow> localStorage
           | Some w \<Rightarrow>
               localStorage(js ''worksheet_'' @ worksheetId \<mapsto>
                 Worksheet (w\<lparr> comments := updated \<rparr>)))))"

text \<open>
  \<open>newJobs[index] = updatedJob\<close> for an integer \<open>index\<close>. A negative index is no array
  index either: JavaScript sets a property \<open>"-1"\<close> on the array object, and the sequence
  stays as it is.
\<close>

definition array_set_int :: "'a option list \<Rightarrow> int \<Rightarrow> 'a \<Rightarrow> 'a option list" where
  "array_set_int xs i v = (if i < 0 then xs else array_set xs (nat i) v)"

definition handleUpdateJob ::
  "jsstring \<Rightarrow> view \<Rightarrow> storage \<Rightarrow> int \<Rightarrow> job \<Rightarrow> view \<times> storage" where
  "handleUpdateJob worksheetId v localStorage index updatedJob =
     (case worksheet v of
        None \<Rightarrow> (v, localStorage)
      | Some w \<Rightarrow>
          (let newJobs = array_set_int (jobs w) index updatedJob;
               updatedWorksheet = w\<lparr> jobs := newJobs \<rparr>
           in (v\<lparr> worksheet := Some updatedWorksheet \<rparr>,
               localStorage(js ''worksheet_'' @ worksheetId \<mapsto> Worksheet updatedWorksheet))))"

section \<open>Travel estimates (routingService.ts)\<close>

subsection \<open>The postcode pattern\<close>

text \<open>
  Regular expressions with the constructs of \<open>UK_POSTCODE_REGEX\<close>: a character class
  (a list of ranges, both ends included), \<open>\s\<close>, sequence, alternation and the greedy
  \<open>?\<close>. \<open>matches r s\<close> lists what is left of \<open>s\<close> after each way \<open>r\<close> can match at
  its start, in the order in which a backtracking matcher tries them: the left
  alternative first, and with \<open>?\<close> the longer match first.
\<close>

datatype regex =
    Class "(jschar \<times> jschar) list"
  | Space
  | Cat regex regex
  | Or regex regex
  | Opt regex

definition in_class :: "(jschar \<times> jschar) list \<Rightarrow> jschar \<Rightarrow> bool" where
  "in_class ranges c = list_ex (\<lambda>(lo, hi). lo \<le> c \<and> c \<le> hi) ranges"

fun matches :: "regex \<Rightarrow> jsstring \<Rightarrow> jsstring list" where
  "matches (Class ranges) s =
     (case s of [] \<Rightarrow> [] | c # cs \<Rightarrow> if in_class ranges c then [cs] else [])"
| "matches Space s =
     (case s of [] \<Rightarrow> [] | c # cs \<Rightarrow> if isWhiteSpace c then [cs] else [])"
| "matches (Cat a b) s = concat (map (matches b) (matches a s))"
| "matches (Or a b) s = matches a s @ matches b s"
| "matches (Opt a) s = matches a s @ [s]"

text \<open>
  \<open>s.match(r)\<close> for a pattern without the \<open>g\<close> flag: the match at the first position
  where \<open>r\<close> matches, \<open>None\<close> for \<open>null\<close>.
\<close>

fun match_first :: "regex \<Rightarrow> jsstring \<Rightarrow> jsstring option" where
  "match_first r [] = (case matches r [] of [] \<Rightarrow> None | rest # _ \<Rightarrow> Some [])"
| "match_first r (c # cs) =
     (case matches r (c # cs) of
        [] \<Rightarrow> match_first r cs
      | rest # _ \<Rightarrow> Some (take (length (c # cs) - length rest) (c # cs)))"

text \<open>\<open>x{2}\<close> is \<open>xx\<close>, and \<open>x{1,2}\<close> is \<open>x\<close> followed by a greedy optional \<open>x\<close>.\<close>

definition twice :: "regex \<Rightarrow> regex" where
  "twice r = Cat r r"

definition once_or_twice :: "regex \<Rightarrow> regex" where
  "once_or_twice r = Cat r (Opt r)"

definition chr :: "jschar \<Rightarrow> regex" where
  "chr c = Class [(c, c)]"

definition letter :: regex where
  "letter = Class [(0x41, 0x5A), (0x61, 0x7A)]"

definition letter_not_IZ :: regex where
  "letter_not_IZ = Class [(0x41, 0x48), (0x61, 0x68), (0x4A, 0x59), (0x6A, 0x79)]"

definition digit :: regex where
  "digit = Class [(0x30, 0x39)]"

text \<open>
  The pattern, alternative by alternative as the source nests them. Its \<open>i\<close> flag
  changes nothing: every class of letters already holds both cases, and without the
  \<open>u\<close> flag no character outside ASCII is folded onto an ASCII letter.
\<close>

definition UK_POSTCODE_REGEX :: regex where
  "UK_POSTCODE_REGEX =
     Or (Cat (Class [(0x47, 0x47), (0x67, 0x67)])
        (Cat (Class [(0x49, 0x49), (0x69, 0x69)])
        (Cat (Class [(0x52, 0x52), (0x72, 0x72)])
        (Cat (chr 0x20) (Cat (chr 0x30) (twice (Class [(0x41, 0x41), (0x61, 0x61)])))))))
        (Cat (Or (Cat letter (once_or_twice digit))
             (Or (Cat letter (Cat letter_not_IZ (once_or_twice digit)))
             (Or (Cat letter (Cat digit letter))
                 (Cat letter (Cat letter_not_IZ (Cat digit (Opt letter)))))))
        (Cat (Opt Space) (Cat digit (twice letter))))"

subsection \<open>Cleaning an address\<close>

text \<open>\<open>replace(/\n/g, ', ')\<close>, \<open>replace(/\|/g, ' ')\<close> and \<open>replace(/\s+/g, ' ')\<close>.\<close>

definition replace_newlines :: "jsstring \<Rightarrow> jsstring" where
  "replace_newlines s = concat (map (\<lambda>c. if c = nl then js '', '' else [c]) s)"

definition replace_bars :: "jsstring \<Rightarrow> jsstring" where
  "replace_bars s = map (\<lambda>c. if c = bar then 0x20 else c) s"

function collapse_spaces :: "jsstring \<Rightarrow> jsstring" where
  "collapse_spaces [] = []"
| "collapse_spaces (c # cs) =
     (if isWhiteSpace c then 0x20 # collapse_spaces (dropWhile isWhiteSpace cs)
      else c # collapse_spaces cs)"
  by pat_completeness auto
termination
  by (relation "measure length") (auto simp: less_Suc_eq_le length_dropWhile_le)

definition cleanAddressForGeocode :: "jsstring \<Rightarrow> jsstring" where
  "cleanAddressForGeocode addr =
     (if addr = [] \<or> addr = js ''TBD'' then []
      else case match_first UK_POSTCODE_REGEX addr of
             Some m \<Rightarrow>
               if m \<noteq> [] then toUpperCase m
               else trim (collapse_spaces (replace_bars (replace_newlines addr)))
           | None \<Rightarrow> trim (collapse_spaces (replace_bars (replace_newlines addr))))"

definition cleanAddressForUrl :: "jsstring \<Rightarrow> jsstring" where
  "cleanAddressForUrl addr =
     (if addr = [] then [] else trim (collapse_spaces (replace_newlines addr)))"

subsection \<open>\<open>encodeURIComponent\<close>\<close>

datatype js_error = URIError

text \<open>
  The characters left as they are: letters, digits and \<open>- _ . ! ~ * ' ( )\<close>.
\<close>

definition uriUnreserved :: "jschar \<Rightarrow> bool" where
  "uriUnreserved c \<longleftrightarrow>
     (0x41 \<le> c \<and> c \<le> 0x5A) \<or> (0x61 \<le> c \<and> c \<le> 0x7A) \<or> (0x30 \<le> c \<and> c \<le> 0x39) \<or>
     c = 0x2D \<or> c = 0x5F \<or> c = 0x2E \<or> c = 0x21 \<or> c = 0x7E \<or> c = 0x2A \<or>
     c = 0x27 \<or> c = 0x28 \<or> c = 0x29"

definition hexDigit :: "nat \<Rightarrow> jschar" where
  "hexDigit n = (if n < 10 then of_nat (48 + n) else of_nat (55 + n))"

definition percent :: "nat \<Rightarrow> jsstring" where
  "percent byte = [0x25, hexDigit (byte div 16), hexDigit (byte mod 16)]"

definition utf8 :: "nat \<Rightarrow> nat list" where
  "utf8 cp =
     (if cp < 0x80 then [cp]
      else if cp < 0x800 then [0xC0 + cp div 0x40, 0x80 + cp mod 0x40]
      else if cp < 0x10000 then
        [0xE0 + cp div 0x1000, 0x80 + cp div 0x40 mod 0x40, 0x80 + cp mod 0x40]
      else
        [0xF0 + cp div 0x40000, 0x80 + cp div 0x1000 mod 0x40,
         0x80 + cp div 0x40 mod 0x40, 0x80 + cp mod 0x40])"

definition isLeadSurrogate :: "jschar \<Rightarrow> bool" where
  "isLeadSurrogate c \<longleftrightarrow> 0xD800 \<le> c \<and> c \<le> 0xDBFF"

definition isTrailSurrogate :: "jschar \<Rightarrow> bool" where
  "isTrailSurrogate c \<longleftrightarrow> 0xDC00 \<le> c \<and> c \<le> 0xDFFF"

text \<open>
  Every other code point is written as the bytes of its UTF-8 form, each as \<open>%XX\<close>. A
  surrogate that is not half of a pair has no code point: \<open>URIError\<close> is thrown.
\<close>

fun encodeURIComponent :: "jsstring \<Rightarrow> js_error + jsstring" where
  "encodeURIComponent [] = Inr []"
| "encodeURIComponent (c # cs) =
     (if uriUnreserved c then
        (case encodeURIComponent cs of Inl e \<Rightarrow> Inl e | Inr r \<Rightarrow> Inr (c # r))
      else if isTrailSurrogate c then Inl URIError
      else if isLeadSurrogate c then
        (case cs of
           [] \<Rightarrow> Inl URIError
         | d # ds \<Rightarrow>
             if isTrailSurrogate d then
               (case encodeURIComponent ds of
                  Inl e \<Rightarrow> Inl e
                | Inr r \<Rightarrow>
                    Inr (concat (map percent
                           (utf8 ((unat c - 0xD800) * 0x400 + (unat d - 0xDC00) + 0x10000))) @ r))
             else Inl URIError)
      else
        (case encodeURIComponent cs of
           Inl e \<Rightarrow> Inl e
         | Inr r \<Rightarrow> Inr (concat (map percent (utf8 (unat c))) @ r)))"

text \<open>
  \<open>s.isWellFormed()\<close>: every surrogate of \<open>s\<close> is half of a pair, a lead followed by a
  trail. These are the strings that are Unicode text.
\<close>

definition isSurrogate :: "jschar \<Rightarrow> bool" where
  "isSurrogate c \<longleftrightarrow> isLeadSurrogate c \<or> isTrailSurrogate c"

fun isWellFormed :: "jsstring \<Rightarrow> bool" where
  "isWellFormed [] = True"
| "isWellFormed [c] = (\<not> isSurrogate c)"
| "isWellFormed (c # d # ds) =
     (if isLeadSurrogate c then isTrailSurrogate d \<and> isWellFormed ds
      else \<not> isTrailSurrogate c \<and> isWellFormed (d # ds))"

subsection \<open>The two services\<close>

text \<open>
  What a \<open>fetch\<close> of a URL comes to: the promise rejects; the response is not \<open>ok\<close>;
  its body does not parse; or it parses to the data the program reads. For the geocoder
  the data is the array of places, for the router the array \<open>routes\<close> (empty also when
  the reply has none). Numbers are kept as the texts JavaScript prints for them:
  floating point is not modelled. A place holds \<open>parseFloat(lat)\<close> and
  \<open>parseFloat(lon)\<close>, a route \<open>Math.round(duration / 60)\<close> and
  \<open>(distance * 0.000621371).toFixed(1)\<close>.
\<close>

datatype 'a reply = Rejected | NotOk | BadBody | Body 'a

record place =
  lat :: jsstring
  lon :: jsstring

record route =
  mins :: jsstring
  miles :: jsstring

record network =
  nominatim :: "jsstring \<Rightarrow> place list reply"
  osrm :: "jsstring \<Rightarrow> route list reply"

record RouteResult =
  durationText :: jsstring
  distanceText :: jsstring
  googleMapsUrl :: jsstring

text \<open>
  \<open>getGoogleMapsUrl\<close> has no \<open>try\<close>: an error of \<open>encodeURIComponent\<close> leaves it.
\<close>

definition getGoogleMapsUrl :: "jsstring \<Rightarrow> jsstring \<Rightarrow> js_error + jsstring" where
  "getGoogleMapsUrl origin destination =
     (case encodeURIComponent (cleanAddressForUrl origin) of
        Inl e \<Rightarrow> Inl e
      | Inr o_enc \<Rightarrow>
          (case encodeURIComponent (cleanAddressForUrl destination) of
             Inl e \<Rightarrow> Inl e
           | Inr d_enc \<Rightarrow>
               Inr (js ''https://www.google.com/maps/dir/?api=1&origin='' @ o_enc @
                    js ''&destination='' @ d_enc)))"

text \<open>
  \<open>geocode\<close>: the coordinates or \<open>null\<close>, and the URLs it fetched, in order. Its
  \<open>try\<close> holds the whole body, so every error ends in \<open>null\<close>.
\<close>

definition geocode :: "network \<Rightarrow> jsstring \<Rightarrow> place option \<times> jsstring list" where
  "geocode net addr =
     (case encodeURIComponent (cleanAddressForGeocode addr) of
        Inl e \<Rightarrow> (None, [])
      | Inr query \<Rightarrow>
          if query = [] \<or> length query < 3 then (None, [])
          else
            (let url = js ''https://nominatim.openstreetmap.org/search?format=json&q='' @
                       query @ js ''&limit=1''
             in (case nominatim net url of
                   Body (p # _) \<Rightarrow> Some \<lparr> lat = lat p, lon = lon p \<rparr>
                 | _ \<Rightarrow> None,
                 [url])))"

text \<open>
  \<open>estimateTravelTime\<close>: what the promise settles to (\<open>Inl\<close> when it rejects), and the
  URLs fetched. \<open>Promise.all\<close> starts both lookups, the origin's first; neither reads
  what the other writes.
\<close>

definition estimateTravelTime ::
  "network \<Rightarrow> jsstring \<Rightarrow> jsstring \<Rightarrow> (js_error + RouteResult option) \<times> jsstring list" where
  "estimateTravelTime net origin destination =
     (case getGoogleMapsUrl origin destination of
        Inl e \<Rightarrow> (Inl e, [])
      | Inr mapsUrl \<Rightarrow>
          if origin = [] \<or> destination = [] then (Inr None, [])
          else
            (let (start_point, calls1) = geocode net origin;
                 (end_point, calls2) = geocode net destination
             in (case (start_point, end_point) of
                   (Some s, Some e) \<Rightarrow>
                     (let url = js ''https://router.project-osrm.org/route/v1/driving/'' @
                                lon s @ js '','' @ lat s @ js '';'' @ lon e @ js '','' @ lat e @
                                js ''?overview=false''
                      in (case osrm net url of
                            Body (r # _) \<Rightarrow>
                              Inr (Some \<lparr> durationText = mins r @ js '' mins'',
                                          distanceText = miles r @ js '' mi'',
                                          googleMapsUrl = mapsUrl \<rparr>)
                          | _ \<Rightarrow> Inr None,
                          calls1 @ calls2 @ [url]))
                 | _ \<Rightarrow> (Inr None, calls1 @ calls2))))"

text \<open>
  Two networks to run the program on: one where every request fails, and one where the
  geocoder knows one place for every query and the router one route.
\<close>

definition net_down :: network where
  "net_down = \<lparr> nominatim = (\<lambda>url. Rejected), osrm = (\<lambda>url. Rejected) \<rparr>"

definition net_up :: network where
  "net_up =
     \<lparr> nominatim = (\<lambda>url. Body [\<lparr> lat = js ''51.5'', lon = js ''-0.12'' \<rparr>]),
       osrm = (\<lambda>url. Body [\<lparr> mins = js ''15'', miles = js ''4.2'' \<rparr>]) \<rparr>"

section \<open>Example data\<close>

text \<open>
  A table as the extraction service writes it: a title line, the header, the rule and
  one row of nine cells; then a row of eight cells, and a row of nine cells one of
  which holds three dashes.
\<close>

definition example_row9 :: jsstring where
  "example_row9 =
     js ''| TBD | 1 High St | 31001234 | Washer | Hoover | leaks | E08 | 2020 | 310012342012 |''"

definition example_table :: jsstring where
  "example_table =
     js ''Thursday, Nov 13'' @ [nl] @
     js ''| Time | Address | Product Code | Product Type | Product Brand | Description of Fault | Error Code | Production Year | Serial Number |'' @ [nl] @
     js ''|---|---|---|---|---|---|---|---|---|'' @ [nl] @
     example_row9"

definition example_row8 :: jsstring where
  "example_row8 = js ''| TBD | 1 High St | 31001234 | Washer | Hoover | leaks | E08 | 2020 |''"

definition example_row_dashes :: jsstring where
  "example_row_dashes =
     js ''| TBD | 1 High St --- rear | 31001234 | Washer | Hoover | leaks | E08 | 2020 | 310012342012 |''"

definition example_job :: job where
  "example_job =
     \<lparr> time = js ''TBD'', address = js ''1 High St'', productCode = js ''31001234'',
       productType = js ''Washer'', productBrand = js ''Hoover'', fault = js ''leaks'',
       errorCode = js ''E08'', productionYear = js ''2020'',
       serialNumber = js ''310012342012'' \<rparr>"

text \<open>
  The example saved with one initial slot, at a clock that reads \<open>1763000000000\<close>, into
  an empty store; and the view that then loads it.
\<close>

definition example_processed :: processedData where
  "example_processed =
     \<lparr> dataTable = example_table, notifications = [js ''Hi {{TIME_SLOT}}''] \<rparr>"

definition example_id :: jsstring where
  "example_id = js ''1763000000000''"

definition example_storage :: storage where
  "example_storage =
     handleSaveWorksheet (Some example_processed) (TimeSlotManager_effect 1 [])
       (js ''Thursday, Nov 13'') example_id
       (js ''2025-11-13T02:13:20.000Z'') (js ''2025-11-13T02:13:20.000Z'')
       (js ''2025-11-13T02:13:20.001Z'') (js ''2025-11-13T02:13:20.001Z'') Map.empty"

definition example_view :: view where
  "example_view =
     load_worksheet example_id example_storage
       \<lparr> worksheet = None, view_comments = Map.empty \<rparr>"

definition example_worksheet :: worksheet where
  "example_worksheet =
     \<lparr> dateLabel = js ''Thursday, Nov 13'', date = js ''2025-11-13T02:13:20.000Z'',
       createdAt = js ''2025-11-13T02:13:20.000Z'',
       timeSlots = [Some \<lparr> start = js ''07:30'', end_time = js ''08:30'' \<rparr>],
       jobs = [Some example_job], comments = Map.empty \<rparr>"

definition example_edit :: job where
  "example_edit = example_job \<lparr> fault := js ''door will not lock'' \<rparr>"

section \<open>The parser: which lines become rows\<close>

lemma parse_lines_filter:
  "parse_lines ls acc =
     acc @ map (\<lambda>l. job_of (cleanCols l))
       (filter (\<lambda>l. js_includes [bar] l \<and> \<not> js_includes (js ''---'') l \<and>
                     \<not> (js_includes (js ''time'') (toLowerCase l) \<and>
                        js_includes (js ''address'') (toLowerCase l)) \<and>
                     8 \<le> length (cleanCols l)) ls)"
  by (induction ls arbitrary: acc) auto

text \<open>
  C1, as amended. The lines are those of the trimmed text. A line becomes a row only
  if it holds a \<open>|\<close>, does not hold \<open>---\<close> anywhere, does not hold both \<open>time\<close> and
  \<open>address\<close> once lower-cased, and has at least 8 cells left when the first and the last
  fragment between bars are dropped, whatever they hold; and every line that meets the
  first three conditions and has at least 9 such cells becomes a row.
\<close>

theorem parse_accepts_rows:
  "(\<forall>j \<in> set (parseMarkdownTable markdown).
      \<exists>line \<in> set (split_on nl (trim markdown)).
        js_includes [bar] line \<and> \<not> js_includes (js ''---'') line \<and>
        \<not> (js_includes (js ''time'') (toLowerCase line) \<and>
           js_includes (js ''address'') (toLowerCase line)) \<and>
        8 \<le> length (cleanCols line) \<and> j = job_of (cleanCols line)) \<and>
   (\<forall>line \<in> set (split_on nl (trim markdown)).
      js_includes [bar] line \<and> \<not> js_includes (js ''---'') line \<and>
      \<not> (js_includes (js ''time'') (toLowerCase line) \<and>
         js_includes (js ''address'') (toLowerCase line)) \<and>
      9 \<le> length (cleanCols line) \<longrightarrow>
      job_of (cleanCols line) \<in> set (parseMarkdownTable markdown))"
  unfolding parseMarkdownTable_def parse_lines_filter by auto

text \<open>
  On the example table the fourth line meets the conditions and is the one row of the
  result.
\<close>

theorem parse_accepts_rows_witness:
  "example_row9 \<in> set (split_on nl (trim example_table)) \<and>
   js_includes [bar] example_row9 \<and> \<not> js_includes (js ''---'') example_row9 \<and>
   \<not> (js_includes (js ''time'') (toLowerCase example_row9) \<and>
      js_includes (js ''address'') (toLowerCase example_row9)) \<and>
   9 \<le> length (cleanCols example_row9) \<and>
   job_of (cleanCols example_row9) = example_job \<and>
   example_job \<in> set (parseMarkdownTable example_table)"
proof -
  have line: "example_row9 \<in> set (split_on nl (trim example_table))"
    by code_simp
  have conds:
    "js_includes [bar] example_row9 \<and> \<not> js_includes (js ''---'') example_row9 \<and>
     \<not> (js_includes (js ''time'') (toLowerCase example_row9) \<and>
        js_includes (js ''address'') (toLowerCase example_row9)) \<and>
     9 \<le> length (cleanCols example_row9)"
    by code_simp
  have row: "job_of (cleanCols example_row9) = example_job"
    by code_simp
  from parse_accepts_rows [of example_table] line conds
  have "job_of (cleanCols example_row9) \<in> set (parseMarkdownTable example_table)"
    by blast
  with line conds row show ?thesis by simp
qed

text \<open>
  The claim as written fails twice. A row of nine cells that is no rule line, but has
  three dashes inside a cell, is dropped; and a row of eight cells is accepted, with an
  empty serial number.
\<close>

theorem parse_accepts_rows_counterexample:
  "length (cleanCols example_row_dashes) = 9 \<and>
   parseMarkdownTable example_row_dashes = [] \<and>
   length (cleanCols example_row8) = 8 \<and>
   parseMarkdownTable example_row8 = [example_job \<lparr> serialNumber := [] \<rparr>]"
  by code_simp

section \<open>The parser: no input makes it fail\<close>

lemma js_includes_single: "js_includes [c] s \<Longrightarrow> c \<in> set s"
  by (induction s) (auto simp: startsWith_def)

lemma set_trim: "set (trim s) \<subseteq> set s"
proof -
  have "set (trim s) \<subseteq> set (dropWhile isWhiteSpace s)"
    unfolding trim_def
    using set_dropWhileD [of _ isWhiteSpace "rev (dropWhile isWhiteSpace s)"] by auto
  also have "\<dots> \<subseteq> set s"
    using set_dropWhileD by fastforce
  finally show ?thesis .
qed

lemma split_from_sets: "l \<in> set (split_from sep cur s) \<Longrightarrow> set l \<subseteq> set cur \<union> set s"
  by (induction sep cur s rule: split_from.induct) (auto split: if_splits)

lemma parse_length:
  "length (parseMarkdownTable markdown) \<le> length (split_on nl (trim markdown))"
  unfolding parseMarkdownTable_def parse_lines_filter by simp

lemma parse_no_bar:
  assumes "bar \<notin> set markdown"
  shows "parseMarkdownTable markdown = []"
proof -
  have "\<not> js_includes [bar] l" if "l \<in> set (split_on nl (trim markdown))" for l
  proof
    assume "js_includes [bar] l"
    then have "bar \<in> set l"
      by (rule js_includes_single)
    moreover have "set l \<subseteq> set (trim markdown)"
      using split_from_sets [OF that [unfolded split_on_def]] by simp
    ultimately show False
      using set_trim [of markdown] assms by blast
  qed
  then show ?thesis
    unfolding parseMarkdownTable_def parse_lines_filter by (simp add: filter_empty_conv)
qed

text \<open>
  C9. The parser is a total function to lists of rows: \<open>trim\<close>, \<open>split\<close>,
  \<open>includes\<close>, \<open>toLowerCase\<close> and \<open>slice\<close> are defined on every string, and a read past
  the end of \<open>cleanCols\<close> is \<open>undefined\<close>, which \<open>||\<close> replaces. On the empty string the
  result is empty; on every text it has at most one row per line; and a text without
  any \<open>|\<close> gives the empty result.
\<close>

theorem parse_never_fails:
  "parseMarkdownTable [] = [] \<and>
   length (parseMarkdownTable markdown) \<le> length (split_on nl (trim markdown)) \<and>
   (bar \<notin> set markdown \<longrightarrow> parseMarkdownTable markdown = [])"
proof -
  have "parseMarkdownTable [] = []"
    by (simp add: parseMarkdownTable_def trim_def split_on_def startsWith_def)
  then show ?thesis
    using parse_length parse_no_bar by blast
qed

theorem parse_never_fails_witness:
  "bar \<notin> set (js ''no table here'') \<and> parseMarkdownTable (js ''no table here'') = []"
proof -
  have "bar \<notin> set (js ''no table here'')"
    by code_simp
  then show ?thesis
    using parse_never_fails [of "js ''no table here''"] by blast
qed

section \<open>The initial time slots\<close>


lemma String_nat_digit: "n < 10 \<Longrightarrow> String_nat n = [of_nat (48 + n)]"
  by simp

lemma String_nat_two: "10 \<le> n \<Longrightarrow> n < 100 \<Longrightarrow> String_nat n = [of_nat (48 + n div 10), of_nat (48 + n mod 10)]"
  by (subst String_nat.simps) simp

lemma pad2: "n < 100 \<Longrightarrow> padStart 2 0x30 (String_nat n) = [of_nat (48 + n div 10), of_nat (48 + n mod 10)]"
proof (cases "n < 10")
  case True
  have "replicate (2 - length [x]) c = [c]" for x c :: jschar
    by (simp add: numeral_2_eq_2)
  with True show ?thesis
    by (simp add: padStart_def String_nat_digit del: String_nat.simps)
next
  case False
  assume "n < 100"
  with False show ?thesis
    by (simp add: padStart_def String_nat_two del: String_nat.simps)
qed

lemma clock_digits:
  "t < 6000 \<Longrightarrow> clock (t div 60) (t mod 60) =
     [of_nat (48 + t div 600), of_nat (48 + t div 60 mod 10), colon,
      of_nat (48 + t mod 60 div 10), of_nat (48 + t mod 10)]"
proof -
  assume "t < 6000"
  then have h: "t div 60 < 100" by simp
  have m: "t mod 60 < 100" by (rule less_trans [OF mod_less_divisor]) simp_all
  have "t mod 60 mod 10 = t mod 10" by (simp add: mod_mod_cancel)
  then show ?thesis
    by (simp add: clock_def pad2 [OF h] pad2 [OF m] div_mult2_eq [symmetric] del: String_nat.simps)
qed




section \<open>Revising the start of a slot\<close>

lemma digit_not_colon: "isDigit c \<Longrightarrow> c \<noteq> colon"
  by (auto simp: isDigit_def colon_def)

lemma split_HHMM:
  "isDigit a \<Longrightarrow> isDigit b \<Longrightarrow> isDigit c \<Longrightarrow> isDigit d \<Longrightarrow>
   split_on colon [a, b, colon, c, d] = [[a, b], [c, d]]"
  by (simp add: split_on_def digit_not_colon)

lemma Number_two_digits:
  "isDigit a \<Longrightarrow> isDigit b \<Longrightarrow> Number_digits [a, b] = Some (10 * digitValue a + digitValue b)"
  by (simp add: Number_digits_def)

lemma handleStartTimeChange_HHMM:
  assumes "isDigit a" "isDigit b" "isDigit c" "isDigit d"
  shows "handleStartTimeChange slots index [a, b, colon, c, d] =
     Some (array_set slots index
       \<lparr> start = [a, b, colon, c, d],
         end_time = clock (((10 * digitValue a + digitValue b) * 60 +
                            (10 * digitValue c + digitValue d) + 120) div 60)
                          (((10 * digitValue a + digitValue b) * 60 +
                            (10 * digitValue c + digitValue d) + 120) mod 60) \<rparr>)"
  using assms
  by (simp add: handleStartTimeChange_def split_HHMM Number_two_digits Let_def)

lemma array_set_twice: "array_set (array_set xs i v) i v = array_set xs i v"
proof (cases "i < length xs \<or> 4294967295 \<le> i")
  case True
  then show ?thesis by (auto simp: array_set_def)
next
  case False
  then have "(xs @ replicate (i - length xs) None @ [Some v]) ! i = Some v"
    by (simp add: nth_append)
  then have "(xs @ replicate (i - length xs) None @ [Some v])[i := Some v] =
      xs @ replicate (i - length xs) None @ [Some v]"
    by (metis list_update_id)
  with False show ?thesis by (simp add: array_set_def)
qed

lemma handleStartTimeChange_twice:
  "handleStartTimeChange slots index newStart = Some slots' \<Longrightarrow>
   handleStartTimeChange slots' index newStart = Some slots'"
  by (auto simp: handleStartTimeChange_def Let_def array_set_twice
           split: list.splits option.splits)

lemma array_set_same:
  "i < length xs \<Longrightarrow> array_set xs i v = xs \<longleftrightarrow> xs ! i = Some v"
  by (auto simp: array_set_def list_update_same_conv)


text \<open>
  C2, as amended. For an index in range and a start \<open>S\<close> of two digits, a colon and two
  digits, \<open>handleStartTimeChange\<close> puts at that index the slot that starts at \<open>S\<close> and
  ends 120 minutes later, rendered by \<open>clock\<close>: two digits of hours and two of minutes
  below 100 hours, not reduced modulo 24. Revising a slot to its current start leaves
  the list as it is exactly when the slot's end already is that start plus 120
  minutes; and revising twice with the same start is revising once.
\<close>

theorem revise_slot:
  assumes "index < length slots" and "isDigit a" and "isDigit b" and "isDigit c" and "isDigit d"
  shows
    "let S = [a, b, colon, c, d];
         t = (10 * digitValue a + digitValue b) * 60 + (10 * digitValue c + digitValue d);
         revised = \<lparr> start = S, end_time = clock ((t + 120) div 60) ((t + 120) mod 60) \<rparr>
     in handleStartTimeChange slots index S = Some (slots[index := Some revised]) \<and>
        (t + 120 < 6000 \<longrightarrow>
           end_time revised =
             [of_nat (48 + (t + 120) div 600), of_nat (48 + (t + 120) div 60 mod 10), colon,
              of_nat (48 + (t + 120) mod 60 div 10), of_nat (48 + (t + 120) mod 10)]) \<and>
        (handleStartTimeChange slots index S = Some slots \<longleftrightarrow>
           slots ! index = Some revised) \<and>
        (\<forall>slots'. handleStartTimeChange slots index S = Some slots' \<longrightarrow>
           handleStartTimeChange slots' index S = Some slots')"
proof -
  note eq = handleStartTimeChange_HHMM [OF assms(2-5), of slots index]
  have in_range: "array_set slots index v = slots[index := Some v]" for v
    using assms(1) by (simp add: array_set_def)
  show ?thesis
    unfolding Let_def
  proof (intro conjI allI impI)
    show "handleStartTimeChange slots index [a, b, colon, c, d] =
      Some (slots[index := Some \<lparr> start = [a, b, colon, c, d],
         end_time = clock (((10 * digitValue a + digitValue b) * 60 +
                            (10 * digitValue c + digitValue d) + 120) div 60)
                          (((10 * digitValue a + digitValue b) * 60 +
                            (10 * digitValue c + digitValue d) + 120) mod 60) \<rparr>])"
      by (simp add: eq in_range)
  next
    assume "(10 * digitValue a + digitValue b) * 60 + (10 * digitValue c + digitValue d) + 120 < 6000"
    then show "end_time \<lparr> start = [a, b, colon, c, d],
         end_time = clock (((10 * digitValue a + digitValue b) * 60 +
                            (10 * digitValue c + digitValue d) + 120) div 60)
                          (((10 * digitValue a + digitValue b) * 60 +
                            (10 * digitValue c + digitValue d) + 120) mod 60) \<rparr> =
       [of_nat (48 + ((10 * digitValue a + digitValue b) * 60 + (10 * digitValue c + digitValue d) + 120) div 600),
        of_nat (48 + ((10 * digitValue a + digitValue b) * 60 + (10 * digitValue c + digitValue d) + 120) div 60 mod 10), colon,
        of_nat (48 + ((10 * digitValue a + digitValue b) * 60 + (10 * digitValue c + digitValue d) + 120) mod 60 div 10),
        of_nat (48 + ((10 * digitValue a + digitValue b) * 60 + (10 * digitValue c + digitValue d) + 120) mod 10)]"
      using clock_digits by simp
  next
    show "handleStartTimeChange slots index [a, b, colon, c, d] = Some slots \<longleftrightarrow>
       slots ! index = Some \<lparr> start = [a, b, colon, c, d],
         end_time = clock (((10 * digitValue a + digitValue b) * 60 +
                            (10 * digitValue c + digitValue d) + 120) div 60)
                          (((10 * digitValue a + digitValue b) * 60 +
                            (10 * digitValue c + digitValue d) + 120) mod 60) \<rparr>"
      using array_set_same [OF assms(1)] by (simp add: eq)
  next
    fix slots'
    assume "handleStartTimeChange slots index [a, b, colon, c, d] = Some slots'"
    then show "handleStartTimeChange slots' index [a, b, colon, c, d] = Some slots'"
      by (rule handleStartTimeChange_twice)
  qed
qed

text \<open>Slot 1 of three initial slots, moved to 09:30, ends at 11:30.\<close>

theorem revise_slot_witness:
  "(1::nat) < length (TimeSlotManager_effect 3 []) \<and>
   isDigit 0x30 \<and> isDigit 0x39 \<and> isDigit 0x33 \<and>
   [0x30, 0x39, colon, 0x33, 0x30] = js ''09:30'' \<and>
   handleStartTimeChange (TimeSlotManager_effect 3 []) 1 (js ''09:30'') =
     Some [Some \<lparr> start = js ''07:30'', end_time = js ''08:30'' \<rparr>,
           Some \<lparr> start = js ''09:30'', end_time = js ''11:30'' \<rparr>,
           Some \<lparr> start = js ''10:00'', end_time = js ''12:00'' \<rparr>]"
proof -
  have len: "(1::nat) < length (TimeSlotManager_effect 3 [])"
    by code_simp
  have d0: "isDigit 0x30" and d9: "isDigit 0x39" and d3: "isDigit 0x33"
    by (simp_all add: isDigit_def)
  have s: "[0x30, 0x39, colon, 0x33, 0x30] = js ''09:30''"
    by code_simp
  have r: "(TimeSlotManager_effect 3 [])
      [1 := Some \<lparr> start = [0x30, 0x39, colon, 0x33, 0x30],
           end_time = clock (((10 * digitValue 0x30 + digitValue 0x39) * 60 +
                            (10 * digitValue 0x33 + digitValue 0x30) + 120) div 60)
                          (((10 * digitValue 0x30 + digitValue 0x39) * 60 +
                            (10 * digitValue 0x33 + digitValue 0x30) + 120) mod 60) \<rparr>] =
     [Some \<lparr> start = js ''07:30'', end_time = js ''08:30'' \<rparr>,
      Some \<lparr> start = js ''09:30'', end_time = js ''11:30'' \<rparr>,
      Some \<lparr> start = js ''10:00'', end_time = js ''12:00'' \<rparr>]"
    by code_simp
  from revise_slot [OF len d0 d9 d3 d0]
  have "handleStartTimeChange (TimeSlotManager_effect 3 []) 1 [0x30, 0x39, colon, 0x33, 0x30] =
     Some ((TimeSlotManager_effect 3 [])
      [1 := Some \<lparr> start = [0x30, 0x39, colon, 0x33, 0x30],
           end_time = clock (((10 * digitValue 0x30 + digitValue 0x39) * 60 +
                            (10 * digitValue 0x33 + digitValue 0x30) + 120) div 60)
                          (((10 * digitValue 0x30 + digitValue 0x39) * 60 +
                            (10 * digitValue 0x33 + digitValue 0x30) + 120) mod 60) \<rparr>])"
    unfolding Let_def by (rule conjunct1)
  with len d0 d9 d3 s r show ?thesis by simp
qed

text \<open>
  The first initial slot is 07:30 to 08:30, an hour long. Revising it to its current
  start 07:30 changes it: it then ends at 09:30.
\<close>

theorem revise_slot_counterexample:
  "TimeSlotManager_effect 1 [] = [Some \<lparr> start = js ''07:30'', end_time = js ''08:30'' \<rparr>] \<and>
   handleStartTimeChange (TimeSlotManager_effect 1 []) 0 (js ''07:30'') =
     Some [Some \<lparr> start = js ''07:30'', end_time = js ''09:30'' \<rparr>]"
  by code_simp

section \<open>Updating a job out of range\<close>

lemma handleUpdateJob_loaded:
  assumes "worksheet v = Some w"
  shows "handleUpdateJob worksheetId v localStorage index updatedJob =
     (v\<lparr> worksheet := Some (w\<lparr> jobs := array_set_int (jobs w) index updatedJob \<rparr>) \<rparr>,
      localStorage(js ''worksheet_'' @ worksheetId \<mapsto>
        Worksheet (w\<lparr> jobs := array_set_int (jobs w) index updatedJob \<rparr>)))"
  using assms by (simp add: handleUpdateJob_def Let_def)



lemma example_parse: "parseMarkdownTable example_table = [example_job]"
  by code_simp

lemma example_slots: "TimeSlotManager_effect 1 [] = [Some \<lparr> start = js ''07:30'', end_time = js ''08:30'' \<rparr>]"
  by code_simp

lemma example_stored:
  "example_storage (js ''worksheet_'' @ example_id) = Some (Worksheet example_worksheet)"
proof -
  have "js ''worksheet_'' @ example_id \<noteq> js ''messages_'' @ example_id"
    by code_simp
  then show ?thesis
    by (simp add: example_storage_def handleSaveWorksheet_def example_processed_def
        example_parse example_slots [unfolded One_nat_def] example_worksheet_def Let_def)
qed

lemma example_loaded: "worksheet example_view = Some example_worksheet"
  by (simp add: example_view_def load_worksheet_def example_stored)




section \<open>Updating a job: what else changes\<close>

lemma array_set_int_in_range:
  "0 \<le> index \<Longrightarrow> nat index < length xs \<Longrightarrow>
   array_set_int xs index x = xs[nat index := Some x]"
  by (simp add: array_set_int_def array_set_def)

text \<open>
  Right after the load the frame holds. A worksheet \<open>w\<close> is in the store, as
  \<open>handleSaveWorksheet\<close> leaves it; the view loads it and \<open>handleUpdateJob\<close> runs at
  an index in range. The record then read from the store has the new job at that index,
  the same number of jobs, every other job as before, and the slots, the comments, the
  date label and both dates of \<open>w\<close>.
\<close>

lemma update_job_frame:
  assumes "localStorage (js ''worksheet_'' @ worksheetId) = Some (Worksheet w)"
    and "0 \<le> index" and "nat index < length (jobs w)"
  shows
    "\<exists>w'. worksheet (load_worksheet worksheetId
              (snd (handleUpdateJob worksheetId (load_worksheet worksheetId localStorage v)
                      localStorage index updatedJob)) v') = Some w' \<and>
          jobs w' ! nat index = Some updatedJob \<and>
          length (jobs w') = length (jobs w) \<and>
          (\<forall>k. k \<noteq> nat index \<longrightarrow> jobs w' ! k = jobs w ! k) \<and>
          timeSlots w' = timeSlots w \<and> comments w' = comments w \<and>
          dateLabel w' = dateLabel w \<and> date w' = date w \<and> createdAt w' = createdAt w"
proof -
  have loaded: "worksheet (load_worksheet worksheetId localStorage v) = Some w"
    by (simp add: load_worksheet_def assms(1))
  have "worksheet (load_worksheet worksheetId
          (snd (handleUpdateJob worksheetId (load_worksheet worksheetId localStorage v)
                  localStorage index updatedJob)) v') =
        Some (w\<lparr> jobs := (jobs w)[nat index := Some updatedJob] \<rparr>)"
    unfolding handleUpdateJob_loaded [OF loaded]
    by (simp add: load_worksheet_def array_set_int_in_range [OF assms(2,3)])
  moreover have "(jobs w)[nat index := Some updatedJob] ! nat index = Some updatedJob"
    using assms(3) by simp
  ultimately show ?thesis
    by simp
qed

text \<open>
  The saved example, job 0 edited: the record read back is the saved one but for that
  job.
\<close>

lemma update_job_frame_example:
  "example_storage (js ''worksheet_'' @ example_id) = Some (Worksheet example_worksheet) \<and>
   (0::int) \<le> 0 \<and> nat 0 < length (jobs example_worksheet) \<and>
   worksheet (load_worksheet example_id
     (snd (handleUpdateJob example_id example_view example_storage 0 example_edit))
     \<lparr> worksheet = None, view_comments = Map.empty \<rparr>) =
   Some (example_worksheet \<lparr> jobs := [Some example_edit] \<rparr>)"
proof -
  have len: "nat 0 < length (jobs example_worksheet)"
    by (simp add: example_worksheet_def)
  have zero: "(0::int) \<le> 0"
    by simp
  from update_job_frame [where localStorage = example_storage and worksheetId = example_id
      and w = example_worksheet and index = 0 and updatedJob = example_edit
      and v = "\<lparr> worksheet = None, view_comments = Map.empty \<rparr>"
      and v' = "\<lparr> worksheet = None, view_comments = Map.empty \<rparr>",
      OF example_stored zero len]
  obtain w' where w':
    "worksheet (load_worksheet example_id
       (snd (handleUpdateJob example_id example_view example_storage 0 example_edit))
       \<lparr> worksheet = None, view_comments = Map.empty \<rparr>) = Some w'"
    "jobs w' ! nat 0 = Some example_edit" "length (jobs w') = length (jobs example_worksheet)"
    "timeSlots w' = timeSlots example_worksheet" "comments w' = comments example_worksheet"
    "dateLabel w' = dateLabel example_worksheet" "date w' = date example_worksheet"
    "createdAt w' = createdAt example_worksheet"
    unfolding example_view_def by auto
  from w'(2,3) have "jobs w' = [Some example_edit]"
    by (cases "jobs w'") (simp_all add: example_worksheet_def)
  with w'(4-8) have "w' = example_worksheet \<lparr> jobs := [Some example_edit] \<rparr>"
    by (cases w') (simp add: example_worksheet_def)
  with w'(1) example_stored len show ?thesis
    by simp
qed

text \<open>
  The handler works on the record in the state of the view, which the effect loaded. A
  comment stored since then is in the store and in \<open>comments\<close> of the view, not in that
  record: an update of a job then stores the record with the comments as loaded, until
  the next comment is stored.
\<close>

lemma update_job_after_comment:
  assumes "worksheet v = Some w"
    and "handleCommentChange worksheetId v localStorage k c = (v1, ls1)"
    and "handleUpdateJob worksheetId v1 ls1 index updatedJob = (v2, ls2)"
  shows "ls1 (js ''worksheet_'' @ worksheetId) =
           Some (Worksheet (w\<lparr> comments := (view_comments v)(k \<mapsto> c) \<rparr>))"
    and "ls2 (js ''worksheet_'' @ worksheetId) =
           Some (Worksheet (w\<lparr> jobs := array_set_int (jobs w) index updatedJob \<rparr>))"
    and "view_comments v2 = (view_comments v)(k \<mapsto> c)"
proof -
  from assms(1,2) have v1: "v1 = v\<lparr> view_comments := (view_comments v)(k \<mapsto> c) \<rparr>"
    and ls1: "ls1 = localStorage(js ''worksheet_'' @ worksheetId \<mapsto>
                 Worksheet (w\<lparr> comments := (view_comments v)(k \<mapsto> c) \<rparr>))"
    by (auto simp: handleCommentChange_def Let_def)
  from v1 assms(1) have w1: "worksheet v1 = Some w"
    by simp
  show "ls1 (js ''worksheet_'' @ worksheetId) =
           Some (Worksheet (w\<lparr> comments := (view_comments v)(k \<mapsto> c) \<rparr>))"
    by (simp add: ls1)
  from assms(3) show "ls2 (js ''worksheet_'' @ worksheetId) =
           Some (Worksheet (w\<lparr> jobs := array_set_int (jobs w) index updatedJob \<rparr>))"
    unfolding handleUpdateJob_loaded [OF w1] by auto
  from assms(3) show "view_comments v2 = (view_comments v)(k \<mapsto> c)"
    unfolding handleUpdateJob_loaded [OF w1] by (auto simp: v1)
qed

text \<open>
  C5, where the code departs from it. The saved example is loaded by the view; a comment
  on job 0 is stored, and the record in the store holds it. Then job 0 is updated: the
  record read from the store has the new job, and no comment on job 0 any more.
\<close>

theorem update_job_drops_comment:
  "(case snd (handleCommentChange example_id example_view example_storage 0
               (js ''pump replaced''))
          (js ''worksheet_'' @ example_id) of
      Some (Worksheet w) \<Rightarrow>
        jobs w = [Some example_job] \<and> comments w 0 = Some (js ''pump replaced'')
    | _ \<Rightarrow> False) \<and>
   (case snd (handleUpdateJob example_id
               (fst (handleCommentChange example_id example_view example_storage 0
                      (js ''pump replaced'')))
               (snd (handleCommentChange example_id example_view example_storage 0
                      (js ''pump replaced'')))
               0 example_edit)
          (js ''worksheet_'' @ example_id) of
      Some (Worksheet w) \<Rightarrow> jobs w = [Some example_edit] \<and> comments w 0 = None
    | _ \<Rightarrow> False)"
proof -
  obtain v1 ls1 where c:
    "handleCommentChange example_id example_view example_storage 0 (js ''pump replaced'') =
       (v1, ls1)"
    by (cases "handleCommentChange example_id example_view example_storage 0
                 (js ''pump replaced'')")
  obtain v2 ls2 where u: "handleUpdateJob example_id v1 ls1 0 example_edit = (v2, ls2)"
    by (cases "handleUpdateJob example_id v1 ls1 0 example_edit")
  have empty: "view_comments example_view = Map.empty"
    by (simp add: example_view_def load_worksheet_def example_stored example_worksheet_def)
  note facts = update_job_after_comment [OF example_loaded c u]
  show ?thesis
    unfolding c u fst_conv snd_conv facts(1) facts(2)
    by (simp add: empty example_worksheet_def array_set_int_def array_set_def)
qed

section \<open>Finalizing the messages\<close>

lemma substitution_plain: "0x24 \<notin> set r \<Longrightarrow> substitution m b a r = r"
  by (induction m b a r rule: substitution.induct) auto

lemma startsWith_append: "startsWith p (p @ s)"
  by (simp add: startsWith_def)

lemma startsWith_includes: "startsWith p s \<Longrightarrow> js_includes p s"
  by (cases s) simp_all

lemma indexOf_first:
  assumes "p \<noteq> []" and "\<not> js_includes p (pre @ butlast p)"
  shows "indexOf p (pre @ p @ post) = Some (length pre)"
  using assms(2)
proof (induction pre)
  case Nil
  from assms(1) obtain c cs where "p @ post = c # cs"
    by (cases p) auto
  moreover have "startsWith p (p @ post)"
    by (rule startsWith_append)
  ultimately show ?case by simp
next
  case (Cons a pre)
  have split: "a # pre @ p @ post = (a # pre @ butlast p) @ ([last p] @ post)"
    using assms(1) by simp
  have len: "length p \<le> length (a # pre @ butlast p)"
    by simp
  have "\<not> startsWith p (a # pre @ butlast p)"
    using Cons.prems by simp
  then have "\<not> startsWith p (a # pre @ p @ post)"
    unfolding split startsWith_def using len by (simp del: append_Cons append_assoc)
  moreover have "\<not> js_includes p (pre @ butlast p)"
    using Cons.prems by simp
  ultimately show ?case
    using Cons.IH by simp
qed

lemma replace_first_at:
  assumes "p \<noteq> []" and "\<not> js_includes p (pre @ butlast p)" and "0x24 \<notin> set r"
  shows "replace_first p r (pre @ p @ post) = pre @ r @ post"
  by (simp add: replace_first_def indexOf_first [OF assms(1,2)] substitution_plain [OF assms(3)])

lemma finalMessages_nth:
  "index < length templates \<Longrightarrow>
   finalMessages templates slots ! index = finalMessage slots (templates ! index) index"
  by (simp add: finalMessages_def)

lemma placeholder_not_empty: "js ''{{TIME_SLOT}}'' \<noteq> []"
  by (simp add: js_def)

lemma time_marker_plain: "0x24 \<notin> set (js ''[TIME]'')" "0x24 \<notin> set (js '' - '')"
  by (simp_all add: js_def)

text \<open>
  Every time the program renders, by \<open>clock\<close>, is digits and a colon: it holds no dollar
  sign. The literal times 07:30 and 08:30 and the options of the start menu are of that
  form.
\<close>

lemma digit_char: "n < 10 \<Longrightarrow> isDigit (of_nat (48 + n))"
proof -
  assume n: "n < 10"
  then have "48 + n < 2 ^ LENGTH(16)"
    by simp
  with refl have u: "unat (of_nat (48 + n) :: jschar) = 48 + n"
    by (rule of_nat_inverse)
  have "unat (0x30 :: jschar) \<le> unat (of_nat (48 + n) :: jschar)"
    unfolding u by simp
  moreover have "unat (of_nat (48 + n) :: jschar) \<le> unat (0x39 :: jschar)"
    unfolding u using n by simp
  ultimately show ?thesis
    unfolding isDigit_def word_le_nat_alt by blast
qed

lemma String_nat_digits: "list_all isDigit (String_nat n)"
proof (induction n rule: String_nat.induct)
  case (1 n)
  show ?case
  proof (cases "n < 10")
    case True
    then have "String_nat n = [of_nat (48 + n)]"
      by (subst String_nat.simps) (simp only: if_True)
    with digit_char [OF True] show ?thesis
      by (simp del: String_nat.simps of_nat_add)
  next
    case False
    then have eq: "String_nat n = String_nat (n div 10) @ [of_nat (48 + n mod 10)]"
      by (subst String_nat.simps) (simp only: if_False)
    have "n mod 10 < 10" by simp
    from digit_char [OF this] "1.IH" [OF False] show ?thesis
      unfolding eq by (simp del: String_nat.simps of_nat_add)
  qed
qed

lemma clock_plain: "0x24 \<notin> set (clock h m)"
proof -
  have "c \<noteq> 0x24" if "isDigit c" for c
    using that by (auto simp: isDigit_def)
  then have "0x24 \<notin> set (String_nat n)" for n
    using String_nat_digits [of n] by (auto simp: list_all_iff simp del: String_nat.simps)
  then show ?thesis
    by (auto simp: clock_def padStart_def colon_def simp del: String_nat.simps)
qed

text \<open>
  C6. \<open>templates ! index\<close> is \<open>pre\<close>, the placeholder, \<open>post\<close>, and the placeholder does
  not occur earlier in it (so this is the one that \<open>replace\<close> finds; a template with
  exactly one placeholder is such). The result has one message per template whatever
  the number of slots. If there is a slot at \<open>index\<close>, message \<open>index\<close> is the template
  with \<open>start - end\<close> for the placeholder; a slot is a pair of times like \<open>09:00\<close>, and
  what the theorem needs of them is that they hold no dollar sign, which \<open>replace\<close>
  would expand. If there is no slot at \<open>index\<close> (the list is shorter, or has a hole
  there), the placeholder becomes \<open>[TIME]\<close>.
\<close>

theorem message_finalization:
  assumes "index < length templates"
    and "templates ! index = pre @ js ''{{TIME_SLOT}}'' @ post"
    and "\<not> js_includes (js ''{{TIME_SLOT}}'') (pre @ butlast (js ''{{TIME_SLOT}}''))"
  shows
    "length (finalMessages templates slots) = length templates \<and>
     (\<forall>slot. index < length slots \<and> slots ! index = Some slot \<and>
        0x24 \<notin> set (start slot) \<and> 0x24 \<notin> set (end_time slot) \<longrightarrow>
        finalMessages templates slots ! index =
          pre @ (start slot @ js '' - '' @ end_time slot) @ post) \<and>
     (length slots \<le> index \<or> slots ! index = None \<longrightarrow>
        finalMessages templates slots ! index = pre @ js ''[TIME]'' @ post)"
proof (intro conjI allI impI)
  show "length (finalMessages templates slots) = length templates"
    by (simp add: finalMessages_def)
next
  fix slot
  assume s: "index < length slots \<and> slots ! index = Some slot \<and>
        0x24 \<notin> set (start slot) \<and> 0x24 \<notin> set (end_time slot)"
  then have "0x24 \<notin> set (start slot @ js '' - '' @ end_time slot)"
    using time_marker_plain(2) by simp
  from replace_first_at [OF placeholder_not_empty assms(3) this] s
  show "finalMessages templates slots ! index =
          pre @ (start slot @ js '' - '' @ end_time slot) @ post"
    by (simp add: finalMessages_nth [OF assms(1)] finalMessage_def at_def assms(2))
next
  assume "length slots \<le> index \<or> slots ! index = None"
  then have "(case at slots index of Some (Some slot) \<Rightarrow> start slot @ js '' - '' @ end_time slot
             | _ \<Rightarrow> js ''[TIME]'') = js ''[TIME]''"
    by (auto simp: at_def)
  with replace_first_at [OF placeholder_not_empty assms(3) time_marker_plain(1)]
  show "finalMessages templates slots ! index = pre @ js ''[TIME]'' @ post"
    by (simp add: finalMessages_nth [OF assms(1)] finalMessage_def assms(2))
qed


text \<open>The two examples of the specification.\<close>

theorem message_finalization_witness:
  "(0::nat) < length [js ''Hi {{TIME_SLOT}}''] \<and>
   [js ''Hi {{TIME_SLOT}}''] ! 0 = js ''Hi '' @ js ''{{TIME_SLOT}}'' @ [] \<and>
   \<not> js_includes (js ''{{TIME_SLOT}}'') (js ''Hi '' @ butlast (js ''{{TIME_SLOT}}'')) \<and>
   0x24 \<notin> set (js ''09:00'') \<and> 0x24 \<notin> set (js ''11:00'') \<and>
   finalMessages [js ''Hi {{TIME_SLOT}}'']
     [Some \<lparr> start = js ''09:00'', end_time = js ''11:00'' \<rparr>] ! 0 = js ''Hi 09:00 - 11:00'' \<and>
   finalMessages [js ''Hi {{TIME_SLOT}}''] [] ! 0 = js ''Hi [TIME]'' \<and>
   length (finalMessages [js ''Hi {{TIME_SLOT}}''] []) = 1"
proof -
  have idx: "(0::nat) < length [js ''Hi {{TIME_SLOT}}'']"
    by simp
  have shape: "[js ''Hi {{TIME_SLOT}}''] ! 0 = js ''Hi '' @ js ''{{TIME_SLOT}}'' @ []"
    by (simp add: js_def)
  have first: "\<not> js_includes (js ''{{TIME_SLOT}}'') (js ''Hi '' @ butlast (js ''{{TIME_SLOT}}''))"
    by code_simp
  have plain: "0x24 \<notin> set (js ''09:00'')" "0x24 \<notin> set (js ''11:00'')"
    by (simp_all add: js_def)
  have lit: "js ''Hi '' @ (js ''09:00'' @ js '' - '' @ js ''11:00'') @ [] = js ''Hi 09:00 - 11:00''"
    "js ''Hi '' @ js ''[TIME]'' @ [] = js ''Hi [TIME]''"
    by (simp_all add: js_def)
  from message_finalization [OF idx shape first,
      of "[Some \<lparr> start = js ''09:00'', end_time = js ''11:00'' \<rparr>]"] plain
  have a: "finalMessages [js ''Hi {{TIME_SLOT}}'']
     [Some \<lparr> start = js ''09:00'', end_time = js ''11:00'' \<rparr>] ! 0 = js ''Hi 09:00 - 11:00''"
    unfolding lit [symmetric] by simp
  from message_finalization [OF idx shape first, of "[]"]
  have b: "finalMessages [js ''Hi {{TIME_SLOT}}''] [] ! 0 = js ''Hi [TIME]''"
    and c: "length (finalMessages [js ''Hi {{TIME_SLOT}}''] []) = 1"
    unfolding lit [symmetric] by simp_all
  from idx shape first plain a b c show ?thesis
    by blast
qed

section \<open>Geocoding a short query\<close>

lemma encode_unreserved: "list_all uriUnreserved s \<Longrightarrow> encodeURIComponent s = Inr s"
  by (induction s) simp_all

lemma utf8_not_empty: "utf8 cp \<noteq> []"
  by (simp add: utf8_def)

lemma percent_run: "bs \<noteq> [] \<Longrightarrow> 3 \<le> length (concat (map percent bs))"
  by (cases bs) (simp_all add: percent_def)

lemma percent_utf8: "3 \<le> length (concat (map percent (utf8 cp))) + n"
  by (rule trans_le_add1) (rule percent_run [OF utf8_not_empty])

text \<open>A character that is encoded at all takes at least three characters.\<close>

lemma encode_reserved:
  "encodeURIComponent s = Inr q \<Longrightarrow> \<not> list_all uriUnreserved s \<Longrightarrow> 3 \<le> length q"
proof (induction s arbitrary: q rule: encodeURIComponent.induct)
  case 1
  then show ?case by simp
next
  case (2 c cs)
  show ?case
  proof (cases "uriUnreserved c")
    case True
    with "2.prems" obtain r where r: "encodeURIComponent cs = Inr r" "q = c # r"
      by (auto split: sum.splits)
    from True "2.prems"(2) have "\<not> list_all uriUnreserved cs"
      by simp
    from "2.IH"(1) [OF True r(1) this] r(2) show ?thesis
      by simp
  next
    case False
    with "2.prems"(1) show ?thesis
      by (auto simp: percent_utf8 split: sum.splits if_splits list.splits)
  qed
qed

lemma geocode_skips:
  assumes "\<forall>q. encodeURIComponent (cleanAddressForGeocode addr) = Inr q \<longrightarrow> length q < 3"
  shows "geocode net addr = (None, [])"
  using assms by (auto simp: geocode_def split: sum.splits)

text \<open>
  So a query that holds a character outside the unreserved ones, and can be encoded, is
  fetched however short it is.
\<close>

lemma geocode_fetches:
  assumes "encodeURIComponent (cleanAddressForGeocode addr) = Inr q"
    and "\<not> list_all uriUnreserved (cleanAddressForGeocode addr)"
  shows "snd (geocode net addr) =
    [js ''https://nominatim.openstreetmap.org/search?format=json&q='' @ q @ js ''&limit=1'']"
proof -
  from encode_reserved [OF assms] have "3 \<le> length q" .
  then show ?thesis
    by (auto simp: geocode_def assms(1) Let_def)
qed

lemma estimate_origin_unresolved:
  assumes "getGoogleMapsUrl origin destination = Inr u" and "geocode net origin = (None, [])"
  shows "fst (estimateTravelTime net origin destination) = Inr None \<and>
         (snd (estimateTravelTime net origin destination) = [] \<or>
          snd (estimateTravelTime net origin destination) = snd (geocode net destination))"
  using assms by (auto simp: estimateTravelTime_def split: prod.splits option.splits)

lemma estimate_destination_unresolved:
  assumes "getGoogleMapsUrl origin destination = Inr u" and "geocode net destination = (None, [])"
  shows "fst (estimateTravelTime net origin destination) = Inr None \<and>
         (snd (estimateTravelTime net origin destination) = [] \<or>
          snd (estimateTravelTime net origin destination) = snd (geocode net origin))"
  using assms by (auto simp: estimateTravelTime_def split: prod.splits option.splits)

text \<open>
  C7, as amended. The length that \<open>geocode\<close> tests is that of the encoded query. When
  the cleaned address is shorter than 3 characters and holds only characters that
  \<open>encodeURIComponent\<close> leaves as they are, \<open>geocode\<close> gives no coordinates and fetches
  nothing, on any network; and an estimate with that address at either end, once the
  map link is built, is absent and fetches at most what the lookup of the other address
  fetches: no route is requested.
\<close>

theorem geocode_short_query:
  assumes "length (cleanAddressForGeocode addr) < 3"
    and "list_all uriUnreserved (cleanAddressForGeocode addr)"
  shows
    "geocode net addr = (None, []) \<and>
     (\<forall>other u. getGoogleMapsUrl addr other = Inr u \<longrightarrow>
        fst (estimateTravelTime net addr other) = Inr None \<and>
        (snd (estimateTravelTime net addr other) = [] \<or>
         snd (estimateTravelTime net addr other) = snd (geocode net other))) \<and>
     (\<forall>other u. getGoogleMapsUrl other addr = Inr u \<longrightarrow>
        fst (estimateTravelTime net other addr) = Inr None \<and>
        (snd (estimateTravelTime net other addr) = [] \<or>
         snd (estimateTravelTime net other addr) = snd (geocode net other)))"
proof -
  have skip: "geocode net addr = (None, [])"
    by (rule geocode_skips) (simp add: encode_unreserved [OF assms(2)] assms(1))
  from skip estimate_origin_unresolved [OF _ skip] estimate_destination_unresolved [OF _ skip]
  show ?thesis
    by blast
qed

text \<open>
  The address \<open>ab\<close>: no lookup for it, and towards Leeds only the lookup of Leeds.
\<close>

theorem geocode_short_query_witness:
  "length (cleanAddressForGeocode (js ''ab'')) < 3 \<and>
   list_all uriUnreserved (cleanAddressForGeocode (js ''ab'')) \<and>
   getGoogleMapsUrl (js ''ab'') (js ''Leeds'') =
     Inr (js ''https://www.google.com/maps/dir/?api=1&origin=ab&destination=Leeds'') \<and>
   geocode net_up (js ''ab'') = (None, []) \<and>
   fst (estimateTravelTime net_up (js ''ab'') (js ''Leeds'')) = Inr None \<and>
   snd (estimateTravelTime net_up (js ''ab'') (js ''Leeds'')) =
     [js ''https://nominatim.openstreetmap.org/search?format=json&q=Leeds&limit=1'']"
proof -
  have len: "length (cleanAddressForGeocode (js ''ab'')) < 3"
    by code_simp
  have plain: "list_all uriUnreserved (cleanAddressForGeocode (js ''ab''))"
    by code_simp
  have url: "getGoogleMapsUrl (js ''ab'') (js ''Leeds'') =
     Inr (js ''https://www.google.com/maps/dir/?api=1&origin=ab&destination=Leeds'')"
    by code_simp
  have other: "snd (geocode net_up (js ''Leeds'')) =
     [js ''https://nominatim.openstreetmap.org/search?format=json&q=Leeds&limit=1'']"
    by code_simp
  from geocode_short_query [OF len plain, of net_up] url other
  have "geocode net_up (js ''ab'') = (None, []) \<and>
     fst (estimateTravelTime net_up (js ''ab'') (js ''Leeds'')) = Inr None \<and>
     (snd (estimateTravelTime net_up (js ''ab'') (js ''Leeds'')) = [] \<or>
      snd (estimateTravelTime net_up (js ''ab'') (js ''Leeds'')) =
        [js ''https://nominatim.openstreetmap.org/search?format=json&q=Leeds&limit=1''])"
    by metis
  moreover have "snd (estimateTravelTime net_up (js ''ab'') (js ''Leeds'')) \<noteq> []"
    by code_simp
  ultimately show ?thesis
    using len plain url by blast
qed

text \<open>
  The claim as written fails at the address \<open>?\<close>. Cleaned it is one character long,
  but encoded it is \<open>%3F\<close>, three characters: the geocoder is asked, also where
  the request then fails; and where it answers, the coordinates are taken and the
  estimate is there.
\<close>

theorem geocode_short_query_counterexample:
  "length (cleanAddressForGeocode (js ''?'')) = 1 \<and>
   geocode net_down (js ''?'') =
     (None, [js ''https://nominatim.openstreetmap.org/search?format=json&q=%3F&limit=1'']) \<and>
   geocode net_up (js ''?'') =
     (Some \<lparr> lat = js ''51.5'', lon = js ''-0.12'' \<rparr>,
      [js ''https://nominatim.openstreetmap.org/search?format=json&q=%3F&limit=1'']) \<and>
   fst (estimateTravelTime net_up (js ''?'') (js ''Leeds'')) =
     Inr (Some \<lparr> durationText = js ''15 mins'', distanceText = js ''4.2 mi'',
                 googleMapsUrl =
                   js ''https://www.google.com/maps/dir/?api=1&origin=%3F&destination=Leeds'' \<rparr>)"
  by code_simp

section \<open>Addresses that can be encoded\<close>

text \<open>
  \<open>encodeURIComponent\<close> throws on no well-formed string, and cleaning an address for
  the map link keeps it well-formed: the map link of two well-formed addresses is built.
\<close>

lemma lead_not_trail: "isLeadSurrogate c \<Longrightarrow> \<not> isTrailSurrogate c"
  by (auto simp: isLeadSurrogate_def isTrailSurrogate_def word_le_nat_alt)

lemma unreserved_plain: "uriUnreserved c \<Longrightarrow> \<not> isSurrogate c"
  by (auto simp: uriUnreserved_def isSurrogate_def isLeadSurrogate_def isTrailSurrogate_def
      word_le_nat_alt)

lemma space_plain: "isWhiteSpace c \<Longrightarrow> \<not> isSurrogate c"
  by (auto simp: isWhiteSpace_def isSurrogate_def isLeadSurrogate_def isTrailSurrogate_def
      word_le_nat_alt)

lemma wellFormed_Cons_plain: "\<not> isSurrogate c \<Longrightarrow> isWellFormed (c # cs) = isWellFormed cs"
  by (cases cs) (auto simp: isSurrogate_def)

lemma wellFormed_pair:
  "isLeadSurrogate c \<Longrightarrow> isWellFormed (c # cs) \<longleftrightarrow> (\<exists>d ds. cs = d # ds \<and> isTrailSurrogate d \<and> isWellFormed ds)"
  by (cases cs) (auto simp: isSurrogate_def)

lemma wellFormed_trail: "isTrailSurrogate c \<Longrightarrow> \<not> isWellFormed (c # cs)"
  by (cases cs) (auto simp: isSurrogate_def lead_not_trail)

lemma encode_wellFormed: "isWellFormed s \<Longrightarrow> \<exists>q. encodeURIComponent s = Inr q"
proof (induction s rule: isWellFormed.induct)
  case 1
  then show ?case by simp
next
  case (2 c)
  then show ?case by (auto simp: isSurrogate_def)
next
  case (3 c d ds)
  show ?case
  proof (cases "isLeadSurrogate c")
    case True
    with "3.prems" have d: "isTrailSurrogate d" and ds: "isWellFormed ds" by simp_all
    from "3.IH"(1) [OF True ds] obtain q where "encodeURIComponent ds = Inr q" ..
    moreover from True have "\<not> uriUnreserved c" using unreserved_plain by (auto simp: isSurrogate_def)
    ultimately show ?thesis using True d by (simp add: lead_not_trail)
  next
    case False
    with "3.prems" have c: "\<not> isTrailSurrogate c" and rest: "isWellFormed (d # ds)" by simp_all
    from "3.IH"(2) [OF False rest] obtain q where "encodeURIComponent (d # ds) = Inr q" ..
    with False c show ?thesis by (cases "uriUnreserved c") simp_all
  qed
qed


lemma wellFormed_plain_append:
  "list_all (\<lambda>c. \<not> isSurrogate c) xs \<Longrightarrow> isWellFormed (xs @ ys) = isWellFormed ys"
  by (induction xs) (simp_all add: wellFormed_Cons_plain)

lemma wellFormed_append_plain:
  "list_all (\<lambda>c. \<not> isSurrogate c) u \<Longrightarrow> isWellFormed (t @ u) \<Longrightarrow> isWellFormed t"
proof (induction t rule: isWellFormed.induct)
  case 1
  then show ?case by simp
next
  case (2 c)
  then show ?case
    by (cases u) (auto simp: isSurrogate_def split: if_splits)
next
  case (3 c d ds)
  then show ?case
    by (auto split: if_splits)
qed

lemma wellFormed_dropWhile: "isWellFormed s \<Longrightarrow> isWellFormed (dropWhile isWhiteSpace s)"
  by (induction s) (auto simp: wellFormed_Cons_plain space_plain)

lemma wellFormed_trim: "isWellFormed s \<Longrightarrow> isWellFormed (trim s)"
proof -
  assume "isWellFormed s"
  then have front: "isWellFormed (dropWhile isWhiteSpace s)"
    by (rule wellFormed_dropWhile)
  let ?t = "dropWhile isWhiteSpace s"
  have "?t = rev (dropWhile isWhiteSpace (rev ?t)) @ rev (takeWhile isWhiteSpace (rev ?t))"
    by (metis rev_append rev_rev_ident takeWhile_dropWhile_id)
  moreover have "list_all (\<lambda>c. \<not> isSurrogate c) (rev (takeWhile isWhiteSpace (rev ?t)))"
    by (auto simp: list_all_iff space_plain dest: set_takeWhileD)
  ultimately have "isWellFormed (rev (dropWhile isWhiteSpace (rev ?t)))"
    using front wellFormed_append_plain by metis
  then show ?thesis
    by (simp add: trim_def)
qed

lemma nl_plain: "\<not> isSurrogate nl"
  by (simp add: nl_def isSurrogate_def isLeadSurrogate_def isTrailSurrogate_def)

lemma comma_space_plain: "list_all (\<lambda>c. \<not> isSurrogate c) (js '', '')"
  by (simp add: js_def isSurrogate_def isLeadSurrogate_def isTrailSurrogate_def)

lemma wellFormed_replace_newlines: "isWellFormed s \<Longrightarrow> isWellFormed (replace_newlines s)"
proof (induction s rule: isWellFormed.induct)
  case 1
  then show ?case by (simp add: replace_newlines_def)
next
  case (2 c)
  then show ?case
    using wellFormed_plain_append [OF comma_space_plain, of "[]"]
    by (simp add: replace_newlines_def)
next
  case (3 c d ds)
  show ?case
  proof (cases "isLeadSurrogate c")
    case True
    with "3.prems" have d: "isTrailSurrogate d" and ds: "isWellFormed ds"
      by simp_all
    from True d nl_plain have "c \<noteq> nl" "d \<noteq> nl"
      by (auto simp: isSurrogate_def)
    with "3.IH"(1) [OF True ds] True d show ?thesis
      by (simp add: replace_newlines_def)
  next
    case False
    with "3.prems" have c: "\<not> isSurrogate c" and rest: "isWellFormed (d # ds)"
      by (simp_all add: isSurrogate_def)
    have "replace_newlines (c # d # ds) =
        (if c = nl then js '', '' else [c]) @ replace_newlines (d # ds)"
      by (simp add: replace_newlines_def)
    moreover have "list_all (\<lambda>c. \<not> isSurrogate c) (if c = nl then js '', '' else [c])"
      using c comma_space_plain by simp
    ultimately show ?thesis
      using "3.IH"(2) [OF False rest] by (simp only: wellFormed_plain_append)
  qed
qed

lemma wellFormed_collapse_spaces: "isWellFormed s \<Longrightarrow> isWellFormed (collapse_spaces s)"
proof (induction s rule: length_induct)
  case (1 s)
  show ?case
  proof (cases s)
    case Nil
    then show ?thesis by simp
  next
    case (Cons c cs)
    show ?thesis
    proof (cases "isWhiteSpace c")
      case True
      with "1.prems" Cons have "isWellFormed cs"
        by (simp add: wellFormed_Cons_plain space_plain)
      then have "isWellFormed (dropWhile isWhiteSpace cs)"
        by (rule wellFormed_dropWhile)
      moreover have "length (dropWhile isWhiteSpace cs) < length s"
        using Cons length_dropWhile_le [of isWhiteSpace cs] by simp
      ultimately have "isWellFormed (collapse_spaces (dropWhile isWhiteSpace cs))"
        using "1.IH" by blast
      moreover have "\<not> isSurrogate 0x20"
        by (simp add: isSurrogate_def isLeadSurrogate_def isTrailSurrogate_def)
      ultimately show ?thesis
        using True Cons by (simp add: wellFormed_Cons_plain)
    next
      case False
      show ?thesis
      proof (cases "isLeadSurrogate c")
        case lead: True
        with "1.prems" Cons obtain d ds where cs: "cs = d # ds"
          and d: "isTrailSurrogate d" and ds: "isWellFormed ds"
          by (auto simp: wellFormed_pair)
        from d have nd: "\<not> isWhiteSpace d"
          using space_plain by (auto simp: isSurrogate_def)
        have "length ds < length s"
          using Cons cs by simp
        with ds "1.IH" have "isWellFormed (collapse_spaces ds)"
          by blast
        with lead d False nd Cons cs show ?thesis
          by simp
      next
        case plain: False
        with "1.prems" Cons have c: "\<not> isSurrogate c"
          using wellFormed_trail [of c cs] by (auto simp: isSurrogate_def)
        with "1.prems" Cons have "isWellFormed cs"
          by (simp add: wellFormed_Cons_plain)
        moreover have "length cs < length s"
          using Cons by simp
        ultimately have "isWellFormed (collapse_spaces cs)"
          using "1.IH" by blast
        with c False Cons show ?thesis
          by (simp add: wellFormed_Cons_plain)
      qed
    qed
  qed
qed

lemma wellFormed_cleanAddressForUrl: "isWellFormed s \<Longrightarrow> isWellFormed (cleanAddressForUrl s)"
  by (simp add: cleanAddressForUrl_def wellFormed_trim wellFormed_collapse_spaces
      wellFormed_replace_newlines)

lemma getGoogleMapsUrl_wellFormed:
  assumes "isWellFormed origin" and "isWellFormed destination"
  shows "\<exists>u. getGoogleMapsUrl origin destination = Inr u"
proof -
  from encode_wellFormed [OF wellFormed_cleanAddressForUrl [OF assms(1)]]
  obtain a where a: "encodeURIComponent (cleanAddressForUrl origin) = Inr a" ..
  from encode_wellFormed [OF wellFormed_cleanAddressForUrl [OF assms(2)]]
  obtain b where b: "encodeURIComponent (cleanAddressForUrl destination) = Inr b" ..
  from a b show ?thesis
    by (simp add: getGoogleMapsUrl_def)
qed

section \<open>An estimate with an empty address\<close>

text \<open>
  With an empty address at either end nothing is fetched, whatever the other address;
  and the result is absent whenever the map link can be built, as it is when the other
  address is well-formed.
\<close>

lemma estimate_empty_calls:
  "snd (estimateTravelTime net [] x) = [] \<and> snd (estimateTravelTime net x []) = []"
  by (auto simp: estimateTravelTime_def split: sum.splits)

lemma estimate_empty_absent:
  "getGoogleMapsUrl [] x = Inr u \<Longrightarrow> estimateTravelTime net [] x = (Inr None, [])"
  "getGoogleMapsUrl x [] = Inr u \<Longrightarrow> estimateTravelTime net x [] = (Inr None, [])"
  by (auto simp: estimateTravelTime_def)

lemma estimate_empty_wellFormed:
  assumes "isWellFormed x"
  shows "estimateTravelTime net [] x = (Inr None, [])"
    and "estimateTravelTime net x [] = (Inr None, [])"
proof -
  from getGoogleMapsUrl_wellFormed [OF _ assms, of "[]"]
  obtain u where "getGoogleMapsUrl [] x = Inr u" by auto
  then show "estimateTravelTime net [] x = (Inr None, [])"
    by (simp add: estimateTravelTime_def)
  from getGoogleMapsUrl_wellFormed [OF assms, of "[]"]
  obtain u where "getGoogleMapsUrl x [] = Inr u" by auto
  then show "estimateTravelTime net x [] = (Inr None, [])"
    by (simp add: estimateTravelTime_def)
qed

text \<open>
  C8, where the code departs from it. From the empty address to Leeds the result is
  absent and nothing is fetched. But \<open>estimateTravelTime\<close> builds the map link before
  it tests for an empty address, and outside its \<open>try\<close>: for the other address a lone
  surrogate U+D800, \<open>encodeURIComponent\<close> throws, and the promise rejects with
  \<open>URIError\<close> instead of resolving to \<open>null\<close>. Nothing is fetched.
\<close>

theorem estimate_empty_rejects:
  "estimateTravelTime net_up [] (js ''Leeds'') = (Inr None, []) \<and>
   estimateTravelTime net_up [] [0xD800] = (Inl URIError, []) \<and>
   estimateTravelTime net_up [0xD800] [] = (Inl URIError, [])"
  by code_simp

section \<open>An estimate with the address TBD\<close>

text \<open>
  The address \<open>TBD\<close> is cleaned to the empty query: no lookup for it, on any network;
  and the estimate is absent whenever the map link can be built, as it is when the other
  address is well-formed.
\<close>

lemma geocode_TBD: "geocode net (js ''TBD'') = (None, [])"
  by (simp add: geocode_def cleanAddressForGeocode_def)

lemma estimate_TBD:
  assumes "getGoogleMapsUrl origin destination = Inr u"
    and "origin = js ''TBD'' \<or> destination = js ''TBD''"
  shows "fst (estimateTravelTime net origin destination) = Inr None"
  using assms estimate_origin_unresolved [OF assms(1), of net]
    estimate_destination_unresolved [OF assms(1), of net] geocode_TBD [of net]
  by blast

lemma estimate_TBD_wellFormed:
  assumes "isWellFormed other"
  shows "fst (estimateTravelTime net (js ''TBD'') other) = Inr None"
    and "fst (estimateTravelTime net other (js ''TBD'')) = Inr None"
proof -
  have tbd: "isWellFormed (js ''TBD'')"
    by (simp add: js_def isSurrogate_def isLeadSurrogate_def isTrailSurrogate_def)
  from getGoogleMapsUrl_wellFormed [OF tbd assms]
  obtain u where "getGoogleMapsUrl (js ''TBD'') other = Inr u" ..
  then show "fst (estimateTravelTime net (js ''TBD'') other) = Inr None"
    by (rule estimate_TBD) simp
  from getGoogleMapsUrl_wellFormed [OF assms tbd]
  obtain u where "getGoogleMapsUrl other (js ''TBD'') = Inr u" ..
  then show "fst (estimateTravelTime net other (js ''TBD'')) = Inr None"
    by (rule estimate_TBD) simp
qed

text \<open>
  C10, where the code departs from it, by the defect of C8. The lookup of \<open>TBD\<close> gives
  no coordinates and fetches nothing, and from \<open>TBD\<close> to Leeds the result is absent
  with the one lookup of Leeds; but from \<open>TBD\<close> to an address that is a lone surrogate
  the promise rejects with \<open>URIError\<close>.
\<close>

theorem estimate_TBD_rejects:
  "geocode net_up (js ''TBD'') = (None, []) \<and>
   estimateTravelTime net_up (js ''TBD'') (js ''Leeds'') =
     (Inr None, [js ''https://nominatim.openstreetmap.org/search?format=json&q=Leeds&limit=1'']) \<and>
   estimateTravelTime net_up (js ''TBD'') [0xD800] = (Inl URIError, [])"
  by code_simp

end
